theory Spec2Isabelle
  imports Main
begin

section \<open>Session state of the accent changer (src/app.py)\<close>

text \<open>
  The script keeps three entries in Streamlit's session state: the transcribed text
  (\<open>st.session_state['text']\<close>), the recording flag (\<open>st.session_state['run']\<close>)
  and the status message (\<open>st.session_state['status']\<close>). Python strings are
  modelled as \<open>string\<close>; every function that assigns to the session state takes
  the state and returns the updated one.
\<close>

record session_state =
  ss_text :: string
  ss_run :: bool
  ss_status :: string

text \<open>Lines 31 to 36: the entries a fresh session starts with.\<close>

definition initial_session_state :: session_state where
  "initial_session_state =
     \<lparr>ss_text = [], ss_run = False, ss_status = ''Ready to start recording.''\<rparr>"

text \<open>Lines 39 to 42.\<close>

definition start_transcription :: "session_state \<Rightarrow> session_state" where
  "start_transcription s =
     s\<lparr>ss_run := True, ss_text := [],
       ss_status := ''Recording started. Please speak clearly.''\<rparr>"

text \<open>Lines 44 to 46.\<close>

definition stop_transcription :: "session_state \<Rightarrow> session_state" where
  "stop_transcription s =
     s\<lparr>ss_run := False,
       ss_status := ''Recording stopped. Processing final text...''\<rparr>"

section \<open>Observable effects and exceptions\<close>

text \<open>
  What the script does besides assigning to the session state is recorded as a list
  of events, in program order: messages shown by \<open>st.warning\<close> and \<open>st.error\<close>,
  the \<open>print\<close> of the recognised text, the request sent to Polly
  (\<open>Text\<close>, \<open>OutputFormat\<close>, \<open>VoiceId\<close>), the temporary file created for the
  audio and the \<open>st.audio\<close> player (path, format, autoplay).
\<close>

datatype event =
    StWarning string
  | StError string
  | Printed string
  | SynthesizeSpeech string string string
  | TempFile string
  | StAudio string string bool

text \<open>
  The exceptions the \<open>try\<close> block of \<open>listen_and_transcribe\<close> tells apart, in
  the order of its \<open>except\<close> clauses. \<open>RequestError\<close> and every other
  \<open>Exception\<close> carry the text that \<open>str(e)\<close> yields in the f-strings.
\<close>

datatype exn =
    UnknownValueError
  | WaitTimeoutError
  | RequestError string
  | OtherException string

section \<open>Speech recognition: \<open>listen_and_transcribe\<close>\<close>

text \<open>
  The outcomes of the external calls of one listening window:
  \<^item> \<open>device_exn\<close>: an exception raised before the \<open>try\<close> block is entered
    (creating the recogniser or the microphone, opening the microphone in the
    \<open>with\<close> statement, \<open>adjust_for_ambient_noise\<close>); it is not caught;
  \<^item> \<open>listen_exn\<close>: an exception raised by \<open>recognizer.listen\<close>, or none when a
    clip was captured;
  \<^item> \<open>recognize_google\<close>: the exception raised by the recognition request, or the
    text it returns.
\<close>

record capture_env =
  device_exn :: "exn option"
  listen_exn :: "exn option"
  recognize_google :: "exn + string"

text \<open>Lines 84 to 94: the four \<open>except\<close> clauses.\<close>

fun except_clauses :: "exn \<Rightarrow> session_state \<Rightarrow> session_state \<times> event list" where
  "except_clauses UnknownValueError s =
     (s\<lparr>ss_status := ''Could not understand the audio.''\<rparr>,
      [StWarning ''Could not understand the audio.''])"
| "except_clauses WaitTimeoutError s =
     (s\<lparr>ss_status := ''Listening timed out, waiting for speech...''\<rparr>, [])"
| "except_clauses (RequestError e) s =
     (s\<lparr>ss_status := ''API request error: '' @ e\<rparr>,
      [StError (''Could not request results from Google Web Speech API; '' @ e)])"
| "except_clauses (OtherException e) s =
     (s\<lparr>ss_status := ''Error occurred: '' @ e\<rparr>,
      [StError (''Error occurred during transcription: '' @ e)])"

text \<open>
  Lines 65 to 94. \<open>Inl e\<close> is the exception \<open>e\<close> leaving the function; it can only
  come from the statements before the \<open>try\<close>, where the session state has not been
  assigned to yet.
\<close>

definition listen_and_transcribe ::
  "capture_env \<Rightarrow> session_state \<Rightarrow> exn + session_state \<times> event list" where
  "listen_and_transcribe env s =
     (case device_exn env of
        Some e \<Rightarrow> Inl e
      | None \<Rightarrow>
          let s1 = s\<lparr>ss_status := ''Listening... Please speak.''\<rparr> in
          (case listen_exn env of
             Some e \<Rightarrow> Inr (except_clauses e s1)
           | None \<Rightarrow>
               let s2 = s1\<lparr>ss_status := ''Processing speech...''\<rparr> in
               (case recognize_google env of
                  Inl e \<Rightarrow> Inr (except_clauses e s2)
                | Inr transcribed_text \<Rightarrow>
                    Inr (s2\<lparr>ss_text := ss_text s2 @ '' '' @ transcribed_text,
                             ss_status := ''Transcription successful!''\<rparr>,
                         [Printed transcribed_text]))))"

section \<open>Speech synthesis: \<open>text_to_speech\<close>\<close>

text \<open>
  The outcomes of the external calls of one conversion, each exception given by its
  \<open>str(e)\<close>:
  \<^item> \<open>client_exn\<close>: raised by \<open>boto3.client\<close>;
  \<^item> \<open>synthesize_exn\<close>: raised by \<open>polly.synthesize_speech\<close>;
  \<^item> \<open>tempfile\<close>: raised by \<open>NamedTemporaryFile\<close>, or the name of the file it
    creates;
  \<^item> \<open>write_exn\<close>: raised while the audio stream is read, written and closed.
\<close>

record polly_env =
  client_exn :: "string option"
  synthesize_exn :: "string option"
  tempfile :: "string + string"
  write_exn :: "string option"

datatype polly_client = PollyClient

text \<open>The default of the parameter \<open>voice_id\<close> of \<open>text_to_speech\<close> (line 49).\<close>

definition default_voice_id :: string where
  "default_voice_id = ''Aditi''"

text \<open>Lines 17 to 28.\<close>

definition initialize_polly_client :: "polly_env \<Rightarrow> polly_client option \<times> event list" where
  "initialize_polly_client penv =
     (case client_exn penv of
        None \<Rightarrow> (Some PollyClient, [])
      | Some e \<Rightarrow> (None, [StError (''Error initializing AWS Polly client: '' @ e)]))"

text \<open>
  Lines 49 to 62. The result is the name of the audio file, or \<open>None\<close>; every
  exception of the \<open>try\<close> block is caught by \<open>except Exception\<close>.
\<close>

definition text_to_speech :: "polly_env \<Rightarrow> string \<Rightarrow> string \<Rightarrow> string option \<times> event list" where
  "text_to_speech penv text voice_id =
     (case initialize_polly_client penv of
        (None, ev) \<Rightarrow> (None, ev)
      | (Some polly, ev) \<Rightarrow>
          let ev1 = ev @ [SynthesizeSpeech text ''mp3'' voice_id] in
          (case synthesize_exn penv of
             Some e \<Rightarrow> (None, ev1 @ [StError (''Error converting text to speech: '' @ e)])
           | None \<Rightarrow>
               (case tempfile penv of
                  Inl e \<Rightarrow> (None, ev1 @ [StError (''Error converting text to speech: '' @ e)])
                | Inr name \<Rightarrow>
                    let ev2 = ev1 @ [TempFile name] in
                    (case write_exn penv of
                       Some e \<Rightarrow>
                         (None, ev2 @ [StError (''Error converting text to speech: '' @ e)])
                     | None \<Rightarrow> (Some name, ev2)))))"

section \<open>The script body: \<open>main\<close>\<close>

text \<open>
  Lines 172 to 178: the conversion button exists only when the recording flag is off
  and the text is not empty (an empty Python string is falsy); \<open>clicked\<close> is what
  \<open>st.button\<close> returns for it. The session state is not assigned to.
\<close>

definition main_convert ::
  "polly_env \<Rightarrow> bool \<Rightarrow> session_state \<Rightarrow> session_state \<times> event list" where
  "main_convert penv clicked s =
     (if \<not> ss_run s \<and> ss_text s \<noteq> [] then
        (if clicked then
           (case text_to_speech penv (ss_text s) ''Aditi'' of
              (None, ev) \<Rightarrow> (s, ev)
            | (Some accent_audio, ev) \<Rightarrow>
                if accent_audio \<noteq> [] then (s, ev @ [StAudio accent_audio ''audio/mp3'' True])
                else (s, ev))
         else (s, []))
      else (s, []))"

text \<open>
  One run of \<open>main\<close> (lines 96 to 178), which Streamlit executes once per user
  action. The three flags are what \<open>st.button\<close> returns for the start, stop and
  conversion buttons. \<open>out_raised\<close> is the exception that ended the run, if any,
  with the session state as it was at that point.
\<close>

record main_out =
  out_state :: session_state
  out_events :: "event list"
  out_raised :: "exn option"

definition main ::
  "capture_env \<Rightarrow> polly_env \<Rightarrow> bool \<Rightarrow> bool \<Rightarrow> bool \<Rightarrow> session_state \<Rightarrow> main_out" where
  "main env penv start_btn stop_btn convert_btn s =
     (let r1 = (if start_btn then
                  (case listen_and_transcribe env (start_transcription s) of
                     Inl e \<Rightarrow> (start_transcription s, [], Some e)
                   | Inr (s', ev) \<Rightarrow> (s', ev, None))
                else (s, [], None)) in
      (case r1 of
         (s1, ev1, Some e) \<Rightarrow> \<lparr>out_state = s1, out_events = ev1, out_raised = Some e\<rparr>
       | (s1, ev1, None) \<Rightarrow>
           let s2 = (if stop_btn then stop_transcription s1 else s1) in
           (case main_convert penv convert_btn s2 of
              (s3, ev3) \<Rightarrow> \<lparr>out_state = s3, out_events = ev1 @ ev3, out_raised = None\<rparr>)))"

section \<open>Sequences of transitions\<close>

text \<open>
  The transitions of the session state machine, each with the outcomes of the
  external calls it makes. Capturing an utterance is \<open>listen_and_transcribe\<close>; when
  its exception leaves the function the session state stays as it was.
\<close>

datatype transition =
    Start
  | Stop
  | CaptureUtterance capture_env
  | Convert polly_env bool

fun fire :: "transition \<Rightarrow> session_state \<Rightarrow> session_state" where
  "fire Start s = start_transcription s"
| "fire Stop s = stop_transcription s"
| "fire (CaptureUtterance env) s =
     (case listen_and_transcribe env s of Inl e \<Rightarrow> s | Inr (s', ev) \<Rightarrow> s')"
| "fire (Convert penv clicked) s = fst (main_convert penv clicked s)"

definition run_transitions :: "transition list \<Rightarrow> session_state \<Rightarrow> session_state" where
  "run_transitions ts s = fold fire ts s"

text \<open>
  Whether the most recent \<open>Start\<close> or \<open>Stop\<close> of a sequence is a \<open>Start\<close>;
  \<open>None\<close> when the sequence has neither.
\<close>

definition is_start_stop :: "transition \<Rightarrow> bool" where
  "is_start_stop t = (case t of Start \<Rightarrow> True | Stop \<Rightarrow> True | _ \<Rightarrow> False)"

definition is_start :: "transition \<Rightarrow> bool" where
  "is_start t = (case t of Start \<Rightarrow> True | _ \<Rightarrow> False)"

definition most_recent_is_start :: "transition list \<Rightarrow> bool option" where
  "most_recent_is_start ts =
     (case rev (filter is_start_stop ts) of
        [] \<Rightarrow> None
      | t # _ \<Rightarrow> Some (is_start t))"

text \<open>The Polly requests among a list of events.\<close>

fun synth_requests :: "event list \<Rightarrow> (string \<times> string \<times> string) list" where
  "synth_requests [] = []"
| "synth_requests (SynthesizeSpeech t f v # es) = (t, f, v) # synth_requests es"
| "synth_requests (_ # es) = synth_requests es"

text \<open>Events that play audio (\<open>st.audio\<close>), and events that create the audio file.\<close>

fun is_played :: "event \<Rightarrow> bool" where
  "is_played (StAudio p f a) = True"
| "is_played _ = False"

fun is_tempfile :: "event \<Rightarrow> bool" where
  "is_tempfile (TempFile n) = True"
| "is_tempfile _ = False"

text \<open>
  The exception raised inside the \<open>try\<close> block of \<open>listen_and_transcribe\<close>, if
  any: the one of \<open>recognizer.listen\<close>, else the one of
  \<open>recognizer.recognize_google\<close>.
\<close>

definition raised_in_try :: "capture_env \<Rightarrow> exn option" where
  "raised_in_try env =
     (case listen_exn env of
        Some e \<Rightarrow> Some e
      | None \<Rightarrow> (case recognize_google env of Inl e \<Rightarrow> Some e | Inr t \<Rightarrow> None))"

text \<open>
  The failure kinds of the recognition contract, and the kind each exception class
  of the \<open>except\<close> clauses stands for.
\<close>

datatype failure_kind = NoSpeechDetected | Timeout | ServiceUnavailable | UnknownError

fun kind_of :: "exn \<Rightarrow> failure_kind" where
  "kind_of UnknownValueError = NoSpeechDetected"
| "kind_of WaitTimeoutError = Timeout"
| "kind_of (RequestError e) = ServiceUnavailable"
| "kind_of (OtherException e) = UnknownError"

section \<open>Auxiliary facts\<close>

subsection \<open>Recognition\<close>

lemma except_clauses_frame:
  "ss_run (fst (except_clauses e s)) = ss_run s"
  "ss_text (fst (except_clauses e s)) = ss_text s"
  by (cases e; simp)+

lemma except_clauses_status_kind:
  "ss_status (fst (except_clauses e s)) = ss_status (fst (except_clauses e' s')) \<Longrightarrow>
   kind_of e = kind_of e'"
  by (cases e; cases e'; simp)

lemma listen_and_transcribe_run:
  "listen_and_transcribe env s = Inr (r, ev) \<Longrightarrow> ss_run r = ss_run s"
  by (auto simp: listen_and_transcribe_def Let_def except_clauses_frame
      split: option.splits sum.splits dest!: arg_cong[where f="\<lambda>p. ss_run (fst p)"])

lemma listen_and_transcribe_raises:
  "(listen_and_transcribe env s = Inl e) = (device_exn env = Some e)"
  by (auto simp: listen_and_transcribe_def Let_def split: option.splits sum.splits)

lemma listen_and_transcribe_failure:
  assumes "device_exn env = None" and "raised_in_try env = Some e"
  shows "\<exists>s0. listen_and_transcribe env s = Inr (except_clauses e s0) \<and>
              ss_run s0 = ss_run s \<and> ss_text s0 = ss_text s"
  using assms
  by (auto simp: listen_and_transcribe_def raised_in_try_def Let_def
      split: option.splits sum.splits)

lemma listen_and_transcribe_success:
  assumes "device_exn env = None" and "listen_exn env = None" and "recognize_google env = Inr t"
  shows "listen_and_transcribe env s =
           Inr (s\<lparr>ss_text := ss_text s @ '' '' @ t, ss_status := ''Transcription successful!''\<rparr>,
                [Printed t])"
  using assms by (simp add: listen_and_transcribe_def)

subsection \<open>Synthesis\<close>

lemma text_to_speech_client_ok:
  "client_exn penv = None \<Longrightarrow>
   synth_requests (snd (text_to_speech penv text voice_id)) = [(text, ''mp3'', voice_id)]"
  by (simp add: text_to_speech_def initialize_polly_client_def Let_def
      split: option.splits sum.splits)

lemma text_to_speech_client_exn:
  "client_exn penv = Some e \<Longrightarrow>
   text_to_speech penv text voice_id =
     (None, [StError (''Error initializing AWS Polly client: '' @ e)])"
  by (simp add: text_to_speech_def initialize_polly_client_def)

lemma text_to_speech_result:
  "fst (text_to_speech penv text voice_id) =
     (if client_exn penv = None \<and> synthesize_exn penv = None \<and> write_exn penv = None
      then (case tempfile penv of Inl e \<Rightarrow> None | Inr name \<Rightarrow> Some name) else None)"
  by (simp add: text_to_speech_def initialize_polly_client_def Let_def
      split: option.splits sum.splits)

lemma text_to_speech_not_played:
  "\<not> list_ex is_played (snd (text_to_speech penv text voice_id))"
  by (simp add: text_to_speech_def initialize_polly_client_def Let_def
      split: option.splits sum.splits)

lemma text_to_speech_no_tempfile:
  "client_exn penv \<noteq> None \<or> synthesize_exn penv \<noteq> None \<Longrightarrow>
   \<not> list_ex is_tempfile (snd (text_to_speech penv text voice_id))"
  by (auto simp: text_to_speech_def initialize_polly_client_def Let_def
      split: option.splits sum.splits)

lemma synth_requests_append:
  "synth_requests (xs @ ys) = synth_requests xs @ synth_requests ys"
  by (induction xs rule: synth_requests.induct) simp_all

subsection \<open>The script body\<close>

lemma main_convert_state: "fst (main_convert penv clicked s) = s"
  by (simp add: main_convert_def split: prod.splits option.splits)

lemma main_convert_requests:
  "synth_requests (snd (main_convert penv clicked s)) =
     (if \<not> ss_run s \<and> ss_text s \<noteq> [] \<and> clicked \<and> client_exn penv = None
      then [(ss_text s, ''mp3'', default_voice_id)] else [])"
proof (cases "client_exn penv")
  case None
  then show ?thesis
    using text_to_speech_client_ok [OF None, of "ss_text s" "''Aditi''"]
    by (auto simp: main_convert_def default_voice_id_def synth_requests_append
        split: prod.splits option.splits)
next
  case (Some e)
  then show ?thesis
    by (simp add: main_convert_def text_to_speech_client_exn)
qed

lemma main_no_start:
  "main env penv False stop_btn convert_btn s =
     \<lparr>out_state = (if stop_btn then stop_transcription s else s),
      out_events = snd (main_convert penv convert_btn (if stop_btn then stop_transcription s else s)),
      out_raised = None\<rparr>"
  using main_convert_state [of penv convert_btn "if stop_btn then stop_transcription s else s"]
  by (cases "main_convert penv convert_btn (if stop_btn then stop_transcription s else s)")
     (simp add: main_def)

lemma main_start_success:
  "main \<lparr>device_exn = None, listen_exn = None, recognize_google = Inr t\<rparr> penv True False convert_btn s =
     \<lparr>out_state = \<lparr>ss_text = '' '' @ t, ss_run = True, ss_status = ''Transcription successful!''\<rparr>,
      out_events = [Printed t], out_raised = None\<rparr>"
  by (simp add: main_def listen_and_transcribe_success start_transcription_def main_convert_def)

lemma main_raised:
  "out_raised (main env penv start_btn stop_btn convert_btn s) =
     (if start_btn then device_exn env else None)"
proof (cases start_btn)
  case False
  then show ?thesis by (simp add: main_no_start)
next
  case True
  show ?thesis
  proof (cases "listen_and_transcribe env (start_transcription s)")
    case (Inl e)
    then have "device_exn env = Some e"
      by (simp add: listen_and_transcribe_raises)
    with Inl True show ?thesis by (simp add: main_def)
  next
    case (Inr p)
    obtain r ev where p: "p = (r, ev)" by (cases p)
    have "device_exn env = None"
    proof (cases "device_exn env")
      case None
      then show ?thesis .
    next
      case (Some e)
      then have "listen_and_transcribe env (start_transcription s) = Inl e"
        by (simp add: listen_and_transcribe_raises)
      with Inr show ?thesis by simp
    qed
    with Inr p True show ?thesis
      by (simp add: main_def Let_def split: prod.splits)
  qed
qed

text \<open>
  What the \<open>except\<close> clauses do achieve: once the \<open>try\<close> block is entered, an
  exception of any of the four kinds raised in it is caught, the recording flag is
  as before, and the statuses of two different kinds differ.
\<close>

lemma try_block_failure_caught:
  assumes "device_exn env = None" and "raised_in_try env = Some e"
    and "device_exn env' = None" and "raised_in_try env' = Some e'"
  shows "\<exists>r ev r' ev'.
           listen_and_transcribe env s = Inr (r, ev) \<and>
           listen_and_transcribe env' s' = Inr (r', ev') \<and>
           ss_run r = ss_run s \<and>
           out_raised (main env penv True stop_btn convert_btn s) = None \<and>
           (kind_of e \<noteq> kind_of e' \<longrightarrow> ss_status r \<noteq> ss_status r')"
proof -
  obtain s0 where a: "listen_and_transcribe env s = Inr (except_clauses e s0)"
    and a0: "ss_run s0 = ss_run s"
    using listen_and_transcribe_failure [OF assms(1,2)] by blast
  obtain s0' where b: "listen_and_transcribe env' s' = Inr (except_clauses e' s0')"
    using listen_and_transcribe_failure [OF assms(3,4)] by blast
  obtain r ev where r: "except_clauses e s0 = (r, ev)" by (cases "except_clauses e s0")
  obtain r' ev' where r': "except_clauses e' s0' = (r', ev')" by (cases "except_clauses e' s0'")
  have "ss_run r = ss_run s"
    using except_clauses_frame(1) [of e s0] a0 r by simp
  moreover have "kind_of e \<noteq> kind_of e' \<longrightarrow> ss_status r \<noteq> ss_status r'"
    using except_clauses_status_kind [of e s0 e' s0'] r r' by auto
  moreover have "out_raised (main env penv True stop_btn convert_btn s) = None"
    using assms(1) by (simp add: main_raised)
  ultimately show ?thesis using a b r r' by auto
qed

subsection \<open>Sequences of transitions\<close>

lemma fire_run:
  "ss_run (fire t s) = (if is_start_stop t then is_start t else ss_run s)"
  by (cases t)
     (auto simp: is_start_stop_def is_start_def start_transcription_def stop_transcription_def
        main_convert_state listen_and_transcribe_run split: sum.splits)

lemma most_recent_snoc:
  "most_recent_is_start (ts @ [t]) =
     (if is_start_stop t then Some (is_start t) else most_recent_is_start ts)"
  by (simp add: most_recent_is_start_def)

lemma run_transitions_run:
  "ss_run (run_transitions ts s) =
     (case most_recent_is_start ts of None \<Rightarrow> ss_run s | Some b \<Rightarrow> b)"
proof (induction ts rule: rev_induct)
  case Nil
  show ?case by (simp add: run_transitions_def most_recent_is_start_def)
next
  case (snoc t ts)
  have "run_transitions (ts @ [t]) s = fire t (run_transitions ts s)"
    by (simp add: run_transitions_def)
  with snoc show ?case
    by (simp add: fire_run most_recent_snoc)
qed

section \<open>The claims\<close>

text \<open>
  C1. Starting from a fresh session, after any sequence of start, stop, capture and
  convert transitions (whatever the external calls do) the recording flag is true
  exactly when the most recent start or stop of the sequence is a start; capturing
  an utterance and converting never change the flag.
\<close>

theorem recording_follows_last_start_stop:
  "ss_run (run_transitions ts initial_session_state) = (most_recent_is_start ts = Some True) \<and>
   ss_run (fire (CaptureUtterance env) s) = ss_run s \<and>
   ss_run (fire (Convert penv clicked) s) = ss_run s"
  using run_transitions_run [of ts initial_session_state]
    fire_run [of "CaptureUtterance env" s] fire_run [of "Convert penv clicked" s]
  by (auto simp: initial_session_state_def is_start_stop_def split: option.splits)

text \<open>
  C2. From any session state, a capture whose recognition returns the text \<open>t\<close>
  sets the transcript to the old transcript, one space, then \<open>t\<close> (the space is
  added also when the old transcript is empty); two successful captures returning
  "hello" and "world" from an empty transcript give " hello world".
\<close>

theorem capture_success_appends_with_space:
  "listen_and_transcribe \<lparr>device_exn = None, listen_exn = None, recognize_google = Inr t\<rparr> s =
     Inr (s\<lparr>ss_text := ss_text s @ '' '' @ t, ss_status := ''Transcription successful!''\<rparr>,
          [Printed t]) \<and>
   ss_text (run_transitions
     [CaptureUtterance \<lparr>device_exn = None, listen_exn = None, recognize_google = Inr ''hello''\<rparr>,
      CaptureUtterance \<lparr>device_exn = None, listen_exn = None, recognize_google = Inr ''world''\<rparr>]
     (s\<lparr>ss_text := []\<rparr>)) = '' hello world''"
  by (simp add: listen_and_transcribe_success run_transitions_def)

text \<open>
  C3. When the recording flag is on, or the transcript is empty, the conversion part
  of \<open>main\<close> does nothing: the session state is returned as it is and there is no
  event at all, so no request reaches the synthesis client, whether or not the
  transcript is empty in the first case and whatever the button reports.
\<close>

theorem convert_disabled_no_op:
  assumes "ss_run s \<or> ss_text s = []"
  shows "main_convert penv clicked s = (s, []) \<and>
         main env penv False False clicked s =
           \<lparr>out_state = s, out_events = [], out_raised = None\<rparr>"
  using assms by (auto simp: main_convert_def main_def)

theorem convert_disabled_no_op_witness:
  "ss_run \<lparr>ss_text = '' hello'', ss_run = True, ss_status = ''Transcription successful!''\<rparr> \<and>
   ss_text \<lparr>ss_text = '' hello'', ss_run = True, ss_status = ''Transcription successful!''\<rparr>
     \<noteq> [] \<and>
   main_convert \<lparr>client_exn = None, synthesize_exn = None, tempfile = Inr ''/tmp/a.mp3'',
                 write_exn = None\<rparr> True
     \<lparr>ss_text = '' hello'', ss_run = True, ss_status = ''Transcription successful!''\<rparr> =
     (\<lparr>ss_text = '' hello'', ss_run = True, ss_status = ''Transcription successful!''\<rparr>, [])"
proof -
  let ?s = "\<lparr>ss_text = '' hello'', ss_run = True, ss_status = ''Transcription successful!''\<rparr>"
  have h: "ss_run ?s \<or> ss_text ?s = []" by simp
  show ?thesis
    using h convert_disabled_no_op [OF h, THEN conjunct1] by simp
qed

text \<open>
  C4. Every failure of a capture is to be caught and turned into a status. The
  \<open>try\<close> block of \<open>listen_and_transcribe\<close> starts only at line 75: an
  exception of the statements before it (no input device when the microphone is
  created or opened, lines 66 to 71) is not handled. At the start button with such
  a failure, from the fresh session, the exception leaves \<open>listen_and_transcribe\<close>
  and ends the run of \<open>main\<close>, and the status is still the one
  \<open>start_transcription\<close> set, with the recording flag on. The same exception
  raised by \<open>recognizer.listen\<close> is caught by the last \<open>except\<close> clause, as
  the failure to create the Polly client is caught in \<open>initialize_polly_client\<close>.
\<close>

theorem device_failure_escapes:
  "listen_and_transcribe
     \<lparr>device_exn = Some (OtherException ''No Default Input Device Available''),
      listen_exn = None, recognize_google = Inr ''hello''\<rparr>
     (start_transcription initial_session_state) =
     Inl (OtherException ''No Default Input Device Available'') \<and>
   main
     \<lparr>device_exn = Some (OtherException ''No Default Input Device Available''),
      listen_exn = None, recognize_google = Inr ''hello''\<rparr>
     \<lparr>client_exn = None, synthesize_exn = None, tempfile = Inr ''/tmp/a.mp3'', write_exn = None\<rparr>
     True False False initial_session_state =
     \<lparr>out_state = \<lparr>ss_text = [], ss_run = True,
                     ss_status = ''Recording started. Please speak clearly.''\<rparr>,
      out_events = [],
      out_raised = Some (OtherException ''No Default Input Device Available'')\<rparr> \<and>
   listen_and_transcribe
     \<lparr>device_exn = None,
      listen_exn = Some (OtherException ''No Default Input Device Available''),
      recognize_google = Inr ''hello''\<rparr>
     (start_transcription initial_session_state) =
     Inr (\<lparr>ss_text = [], ss_run = True,
            ss_status = ''Error occurred: No Default Input Device Available''\<rparr>,
          [StError ''Error occurred during transcription: No Default Input Device Available'']) \<and>
   initialize_polly_client
     \<lparr>client_exn = Some ''no region'', synthesize_exn = None, tempfile = Inr ''/tmp/a.mp3'',
      write_exn = None\<rparr> =
     (None, [StError ''Error initializing AWS Polly client: no region''])"
  by (simp add: listen_and_transcribe_def main_def start_transcription_def
      initial_session_state_def initialize_polly_client_def)

text \<open>
  C5, as stated: after start, a capture recognising "testing one two", stop and
  convert, the synthesis client is invoked exactly once. When \<open>boto3.client\<close>
  raises in the run of the conversion button, \<open>text_to_speech\<close> returns at its
  guard (line 51) and the three runs together send no request to Polly.
\<close>

theorem end_to_end_no_client_counterexample:
  "synth_requests
     (out_events
        (main \<lparr>device_exn = None, listen_exn = None, recognize_google = Inr ''testing one two''\<rparr>
           \<lparr>client_exn = Some ''no region'', synthesize_exn = None,
              tempfile = Inr ''/tmp/a.mp3'', write_exn = None\<rparr>
           True False False initial_session_state) @
      out_events
        (main \<lparr>device_exn = None, listen_exn = None, recognize_google = Inr ''testing one two''\<rparr>
           \<lparr>client_exn = Some ''no region'', synthesize_exn = None,
              tempfile = Inr ''/tmp/a.mp3'', write_exn = None\<rparr>
           False True False
           \<lparr>ss_text = '' testing one two'', ss_run = True,
              ss_status = ''Transcription successful!''\<rparr>) @
      out_events
        (main \<lparr>device_exn = None, listen_exn = None, recognize_google = Inr ''testing one two''\<rparr>
           \<lparr>client_exn = Some ''no region'', synthesize_exn = None,
              tempfile = Inr ''/tmp/a.mp3'', write_exn = None\<rparr>
           False False True
           \<lparr>ss_text = '' testing one two'', ss_run = False,
              ss_status = ''Recording stopped. Processing final text...''\<rparr>)) = [] \<and>
   out_state
     (main \<lparr>device_exn = None, listen_exn = None, recognize_google = Inr ''testing one two''\<rparr>
        \<lparr>client_exn = Some ''no region'', synthesize_exn = None,
           tempfile = Inr ''/tmp/a.mp3'', write_exn = None\<rparr>
        True False False initial_session_state) =
     \<lparr>ss_text = '' testing one two'', ss_run = True, ss_status = ''Transcription successful!''\<rparr> \<and>
   out_state
     (main \<lparr>device_exn = None, listen_exn = None, recognize_google = Inr ''testing one two''\<rparr>
        \<lparr>client_exn = Some ''no region'', synthesize_exn = None,
           tempfile = Inr ''/tmp/a.mp3'', write_exn = None\<rparr>
        False True False
        \<lparr>ss_text = '' testing one two'', ss_run = True,
           ss_status = ''Transcription successful!''\<rparr>) =
     \<lparr>ss_text = '' testing one two'', ss_run = False,
        ss_status = ''Recording stopped. Processing final text...''\<rparr> \<and>
   out_events
     (main \<lparr>device_exn = None, listen_exn = None, recognize_google = Inr ''testing one two''\<rparr>
        \<lparr>client_exn = Some ''no region'', synthesize_exn = None,
           tempfile = Inr ''/tmp/a.mp3'', write_exn = None\<rparr>
        False False True
        \<lparr>ss_text = '' testing one two'', ss_run = False,
           ss_status = ''Recording stopped. Processing final text...''\<rparr>) =
     [StError ''Error initializing AWS Polly client: no region'']"
  by (simp add: main_start_success main_no_start main_convert_requests synth_requests_append
      stop_transcription_def initial_session_state_def)
     (simp add: main_convert_def text_to_speech_client_exn)

text \<open>
  C5, amended: from every prior session state, three runs of \<open>main\<close>: the start
  button with a capture that recognises "testing one two", then the stop button,
  then the conversion button. The state before the third run is the one the
  transitions start, capture, stop produce, with transcript " testing one two"
  whatever the transcript was before. The third run calls \<open>text_to_speech\<close> with
  that transcript and the default voice. Over the three runs together the Polly
  client receives exactly one request, with that text and that voice, when
  \<open>boto3.client\<close> returns a client in the third run, and none when it raises.
\<close>

theorem end_to_end_synthesis_request:
  "(let r1 = main \<lparr>device_exn = None, listen_exn = None,
                    recognize_google = Inr ''testing one two''\<rparr>
               penv1 True False convert_btn1 s0;
        r2 = main env2 penv2 False True False (out_state r1);
        r3 = main env3 penv False False True (out_state r2)
    in out_state r2 =
         run_transitions
           [Start,
            CaptureUtterance \<lparr>device_exn = None, listen_exn = None,
                               recognize_google = Inr ''testing one two''\<rparr>,
            Stop] s0 \<and>
       ss_text (out_state r2) = '' testing one two'' \<and>
       out_raised r1 = None \<and> out_raised r2 = None \<and> out_raised r3 = None \<and>
       out_events r3 =
         (case text_to_speech penv '' testing one two'' default_voice_id of
            (None, ev) \<Rightarrow> ev
          | (Some accent_audio, ev) \<Rightarrow>
              if accent_audio \<noteq> [] then ev @ [StAudio accent_audio ''audio/mp3'' True] else ev) \<and>
       synth_requests (out_events r1 @ out_events r2 @ out_events r3) =
         (if client_exn penv = None
          then [('' testing one two'', ''mp3'', default_voice_id)] else []))"
  by (simp add: main_start_success main_no_start main_convert_requests stop_transcription_def
      run_transitions_def start_transcription_def listen_and_transcribe_success
      synth_requests_append Let_def)
     (simp add: main_convert_def default_voice_id_def split: prod.splits option.splits)

text \<open>
  C6. From every session state, \<open>start_transcription\<close> empties the transcript and
  turns the recording flag on.
\<close>

theorem start_resets_transcript:
  "ss_text (start_transcription s) = [] \<and> ss_run (start_transcription s)"
  by (simp add: start_transcription_def)

text \<open>
  C7, as stated: the status after start is exactly "Recording started..." and the
  status after stop is exactly "Recording stopped...". Neither holds from the
  fresh session: the messages of the code are longer.
\<close>

theorem start_stop_status_counterexample:
  "ss_status (start_transcription initial_session_state) \<noteq> ''Recording started...'' \<and>
   ss_status (stop_transcription initial_session_state) \<noteq> ''Recording stopped...''"
  by (simp add: start_transcription_def stop_transcription_def)

text \<open>
  C7, amended: start sets the status to exactly
  "Recording started. Please speak clearly." and stop sets it to exactly
  "Recording stopped. Processing final text...".
\<close>

theorem start_stop_status_exact:
  "ss_status (start_transcription s) = ''Recording started. Please speak clearly.'' \<and>
   ss_status (stop_transcription s) = ''Recording stopped. Processing final text...''"
  by (simp add: start_transcription_def stop_transcription_def)

text \<open>
  C8, as stated: from every session state a capture that ends in "no speech
  understood" leaves a status different from the one held before. It fails from a
  state whose status is already that warning: the whole state comes back as it was.
\<close>

theorem no_speech_status_counterexample:
  "listen_and_transcribe
     \<lparr>device_exn = None, listen_exn = None, recognize_google = Inl UnknownValueError\<rparr>
     \<lparr>ss_text = [], ss_run = True, ss_status = ''Could not understand the audio.''\<rparr> =
   Inr (\<lparr>ss_text = [], ss_run = True, ss_status = ''Could not understand the audio.''\<rparr>,
        [StWarning ''Could not understand the audio.''])"
  by (simp add: listen_and_transcribe_def)

text \<open>
  C8, amended: from every session state a capture that ends in "no speech
  understood" changes nothing but the status, which becomes exactly
  "Could not understand the audio." (also shown as a warning); when the capture
  follows \<open>start_transcription\<close>, as it does in \<open>main\<close>, that status differs
  from the one held before the capture.
\<close>

theorem no_speech_keeps_transcript:
  assumes "device_exn env = None" and "raised_in_try env = Some UnknownValueError"
  shows "listen_and_transcribe env s =
           Inr (s\<lparr>ss_status := ''Could not understand the audio.''\<rparr>,
                [StWarning ''Could not understand the audio.'']) \<and>
         (\<exists>r ev. listen_and_transcribe env (start_transcription s) = Inr (r, ev) \<and>
                  ss_text r = ss_text (start_transcription s) \<and>
                  ss_status r \<noteq> ss_status (start_transcription s))"
  using assms
  by (auto simp: listen_and_transcribe_def raised_in_try_def start_transcription_def
      split: option.splits sum.splits)

theorem no_speech_keeps_transcript_witness:
  "device_exn \<lparr>device_exn = None, listen_exn = None, recognize_google = Inl UnknownValueError\<rparr> = None \<and>
   raised_in_try \<lparr>device_exn = None, listen_exn = None, recognize_google = Inl UnknownValueError\<rparr>
     = Some UnknownValueError \<and>
   listen_and_transcribe
     \<lparr>device_exn = None, listen_exn = None, recognize_google = Inl UnknownValueError\<rparr>
     \<lparr>ss_text = '' hello'', ss_run = True, ss_status = ''Transcription successful!''\<rparr> =
   Inr (\<lparr>ss_text = '' hello'', ss_run = True, ss_status = ''Could not understand the audio.''\<rparr>,
        [StWarning ''Could not understand the audio.''])"
proof -
  let ?E = "\<lparr>device_exn = None, listen_exn = None, recognize_google = Inl UnknownValueError\<rparr>"
  have h1: "device_exn ?E = None" by simp
  have h2: "raised_in_try ?E = Some UnknownValueError" by (simp add: raised_in_try_def)
  show ?thesis
    using h1 h2
      no_speech_keeps_transcript [OF h1 h2, of "\<lparr>ss_text = '' hello'', ss_run = True,
                          ss_status = ''Transcription successful!''\<rparr>", THEN conjunct1]
    by simp
qed



text \<open>
  C10. When \<open>boto3.client\<close> raises or \<open>synthesize_speech\<close> raises,
  \<open>text_to_speech\<close> returns \<open>None\<close>, no audio file is created and nothing is
  played, and the conversion part of \<open>main\<close>, as the whole run, leaves the session
  state (transcript and recording flag included) as it was.
\<close>

theorem synthesis_failure_yields_nothing:
  assumes "client_exn penv \<noteq> None \<or> synthesize_exn penv \<noteq> None"
  shows "fst (text_to_speech penv text voice_id) = None \<and>
         \<not> list_ex is_tempfile (snd (text_to_speech penv text voice_id)) \<and>
         \<not> list_ex is_played (snd (text_to_speech penv text voice_id)) \<and>
         fst (main_convert penv clicked s) = s \<and>
         \<not> list_ex is_played (snd (main_convert penv clicked s)) \<and>
         out_state (main env penv False False clicked s) = s \<and>
         \<not> list_ex is_played (out_events (main env penv False False clicked s))"
proof -
  have r: "fst (text_to_speech penv (ss_text s) ''Aditi'') = None"
    using assms by (auto simp: text_to_speech_result)
  have p: "\<not> list_ex is_played (snd (main_convert penv clicked s))"
    using r text_to_speech_not_played [of penv "ss_text s" "''Aditi''"]
    by (cases "text_to_speech penv (ss_text s) ''Aditi''") (auto simp: main_convert_def)
  show ?thesis
    using assms p text_to_speech_no_tempfile [OF assms]
    by (auto simp: text_to_speech_result text_to_speech_not_played main_convert_state
        main_no_start)
qed

theorem synthesis_failure_yields_nothing_witness:
  "synthesize_exn \<lparr>client_exn = None, synthesize_exn = Some ''denied'',
                    tempfile = Inr ''/tmp/a.mp3'', write_exn = None\<rparr> = Some ''denied'' \<and>
   fst (text_to_speech \<lparr>client_exn = None, synthesize_exn = Some ''denied'',
                         tempfile = Inr ''/tmp/a.mp3'', write_exn = None\<rparr>
          '' hello'' ''Aditi'') = None"
proof -
  let ?P = "\<lparr>client_exn = None, synthesize_exn = Some ''denied'', tempfile = Inr ''/tmp/a.mp3'',
             write_exn = None\<rparr>"
  have h: "client_exn ?P \<noteq> None \<or> synthesize_exn ?P \<noteq> None" by simp
  show ?thesis
    using h synthesis_failure_yields_nothing [OF h, of "'' hello''" "''Aditi''", THEN conjunct1]
    by simp
qed

end
